theory Spec2Isabelle
  imports Main "HOL-Library.Monad_Syntax"
begin

section \<open>Provider configuration of the SberCloud Terraform provider\<close>

text \<open>
  The development follows \<^verbatim>\<open>sbercloud/provider.go\<close>. That file declares the
  provider's schema (one entry per configuration field), wraps the configuration step in
  a closure that supplies a Terraform version string, and builds a
  \<^verbatim>\<open>huaweicloud.Config\<close> from the fields in \<^verbatim>\<open>configureProvider\<close>.

  Two libraries are called but are not part of the file: the plugin SDK
  (\<^verbatim>\<open>helper/schema\<close>: \<^verbatim>\<open>EnvDefaultFunc\<close>, \<^verbatim>\<open>MultiEnvDefaultFunc\<close>,
  \<^verbatim>\<open>ResourceData.Get\<close>, \<^verbatim>\<open>ResourceData.GetOk\<close>, the handling of
  \<^verbatim>\<open>Required\<close> and \<^verbatim>\<open>DefaultFunc\<close>) and the cloud library
  (\<^verbatim>\<open>Config.LoadAndValidate\<close>). The SDK functions are written out below after their
  documented behaviour, each marked as such; \<^verbatim>\<open>LoadAndValidate\<close> is a parameter.
\<close>

subsection \<open>Values, the environment, schema entries\<close>

text \<open>
  A Go \<^verbatim>\<open>interface{}\<close> that holds a string or a bool; \<^verbatim>\<open>nil\<close> is \<open>None\<close> of
  \<open>val option\<close>.
\<close>

datatype val = VString string | VBool bool

datatype ValueType = TypeBool | TypeString

text \<open>The process environment: a variable is unset (\<open>None\<close>) or has a value.\<close>

type_synonym environ = "string \<rightharpoonup> string"

text \<open>\<^verbatim>\<open>os.Getenv\<close>: the value of the variable, the empty string when it is unset.\<close>

definition Getenv :: "environ \<Rightarrow> string \<Rightarrow> string" where
  "Getenv env k = (case env k of None \<Rightarrow> [] | Some v \<Rightarrow> v)"

text \<open>
  The fields of \<^verbatim>\<open>schema.Schema\<close> that \<^verbatim>\<open>provider.go\<close> sets. A field the source
  leaves out has Go's zero value (\<open>False\<close>, the empty list, the empty string).
  \<^verbatim>\<open>DefaultFunc\<close> reads the environment, which is passed explicitly; \<open>None\<close> is the
  \<^verbatim>\<open>nil\<close> default. \<^verbatim>\<open>Description\<close> is documentation only and is left out.
\<close>

record Schema =
  Type :: ValueType
  Optional :: bool
  Required :: bool
  DefaultFunc :: "environ \<Rightarrow> val option"
  RequiredWith :: "string list"
  Sensitive :: bool
  InputDefault :: string

text \<open>
  SDK, \<^verbatim>\<open>schema.EnvDefaultFunc(k, dv)\<close>: the value of the environment variable \<open>k\<close>
  when it is not the empty string, the default \<open>dv\<close> otherwise.
\<close>

definition EnvDefaultFunc :: "string \<Rightarrow> val option \<Rightarrow> environ \<Rightarrow> val option" where
  "EnvDefaultFunc k dv env =
     (let v = Getenv env k in if v \<noteq> [] then Some (VString v) else dv)"

text \<open>
  SDK, \<^verbatim>\<open>schema.MultiEnvDefaultFunc(ks, dv)\<close>: the first variable of \<open>ks\<close> whose
  value is not the empty string, the default \<open>dv\<close> when there is none.
\<close>

fun MultiEnvDefaultFunc :: "string list \<Rightarrow> val option \<Rightarrow> environ \<Rightarrow> val option" where
  "MultiEnvDefaultFunc [] dv env = dv"
| "MultiEnvDefaultFunc (k # ks) dv env =
     (let v = Getenv env k in
      if v \<noteq> [] then Some (VString v) else MultiEnvDefaultFunc ks dv env)"

subsection \<open>The provider's schema\<close>

text \<open>
  \<^verbatim>\<open>Provider()\<close>, the \<^verbatim>\<open>Schema\<close> map, entry by entry in the order of the source.
  The Go map is keyed by field name; the keys are distinct, so the association list
  read through \<open>map_of\<close> is the same map. The data-source and resource tables of the
  provider only register library objects, and the global \<^verbatim>\<open>osMutexKV\<close> is not used
  by the configuration step; neither is modelled.
\<close>

definition auth_url_default :: string where
  "auth_url_default = ''https://iam.ru-moscow-1.hc.sbercloud.ru/v3''"

definition ProviderSchema :: "(string \<times> Schema) list" where
  "ProviderSchema =
    [(''access_key'',
        \<lparr>Type = TypeString, Optional = True, Required = False,
         DefaultFunc = EnvDefaultFunc ''SBC_ACCESS_KEY'' None,
         RequiredWith = [''secret_key''], Sensitive = False, InputDefault = []\<rparr>),
     (''secret_key'',
        \<lparr>Type = TypeString, Optional = True, Required = False,
         DefaultFunc = EnvDefaultFunc ''SBC_SECRET_KEY'' None,
         RequiredWith = [''access_key''], Sensitive = False, InputDefault = []\<rparr>),
     (''auth_url'',
        \<lparr>Type = TypeString, Optional = True, Required = False,
         DefaultFunc = EnvDefaultFunc ''SBC_AUTH_URL'' (Some (VString auth_url_default)),
         RequiredWith = [], Sensitive = False, InputDefault = []\<rparr>),
     (''region'',
        \<lparr>Type = TypeString, Optional = False, Required = True,
         DefaultFunc = EnvDefaultFunc ''SBC_REGION_NAME'' None,
         RequiredWith = [], Sensitive = False, InputDefault = ''ru-moscow-1''\<rparr>),
     (''user_name'',
        \<lparr>Type = TypeString, Optional = True, Required = False,
         DefaultFunc = EnvDefaultFunc ''SBC_USERNAME'' (Some (VString [])),
         RequiredWith = [''password'', ''account_name''], Sensitive = False,
         InputDefault = []\<rparr>),
     (''project_name'',
        \<lparr>Type = TypeString, Optional = True, Required = False,
         DefaultFunc = MultiEnvDefaultFunc [''SBC_PROJECT_NAME''] (Some (VString [])),
         RequiredWith = [], Sensitive = False, InputDefault = []\<rparr>),
     (''password'',
        \<lparr>Type = TypeString, Optional = True, Required = False,
         DefaultFunc = EnvDefaultFunc ''SBC_PASSWORD'' (Some (VString [])),
         RequiredWith = [''user_name'', ''account_name''], Sensitive = True,
         InputDefault = []\<rparr>),
     (''account_name'',
        \<lparr>Type = TypeString, Optional = True, Required = False,
         DefaultFunc = MultiEnvDefaultFunc [''SBC_ACCOUNT_NAME''] (Some (VString [])),
         RequiredWith = [''password'', ''user_name''], Sensitive = False,
         InputDefault = []\<rparr>),
     (''insecure'',
        \<lparr>Type = TypeBool, Optional = True, Required = False,
         DefaultFunc = EnvDefaultFunc ''SBC_INSECURE'' (Some (VBool False)),
         RequiredWith = [], Sensitive = False, InputDefault = []\<rparr>)]"

subsection \<open>Reading configuration data\<close>

text \<open>
  SDK, \<^verbatim>\<open>schema.ResourceData\<close>, as far as \<^verbatim>\<open>configureProvider\<close> reads it: the
  schema it was built for and the fields that have a value.
\<close>

record ResourceData =
  schema :: "(string \<times> Schema) list"
  vals :: "string \<rightharpoonup> val"

text \<open>The zero value of a schema type, and the test for it.\<close>

fun Zero :: "ValueType \<Rightarrow> val" where
  "Zero TypeBool = VBool False"
| "Zero TypeString = VString []"

fun isZero :: "val \<Rightarrow> bool" where
  "isZero (VBool b) = (\<not> b)"
| "isZero (VString s) = (s = [])"

text \<open>
  SDK, \<^verbatim>\<open>d.Get(key)\<close>: the value of the field, the zero value of the field's type
  when the field has no value, \<^verbatim>\<open>nil\<close> for a key the schema does not declare.
\<close>

definition Get :: "ResourceData \<Rightarrow> string \<Rightarrow> val option" where
  "Get d key =
     (case map_of (schema d) key of
        None \<Rightarrow> None
      | Some s \<Rightarrow> (case vals d key of None \<Rightarrow> Some (Zero (Type s)) | Some v \<Rightarrow> Some v))"

text \<open>
  SDK, \<^verbatim>\<open>d.GetOk(key)\<close>: the value as \<^verbatim>\<open>Get\<close> returns it, and whether the field
  has a value that is not the zero value.
\<close>

definition GetOk :: "ResourceData \<Rightarrow> string \<Rightarrow> val option \<times> bool" where
  "GetOk d key =
     (case Get d key of
        None \<Rightarrow> (None, False)
      | Some v \<Rightarrow> (Some v, vals d key \<noteq> None \<and> \<not> isZero v))"

text \<open>
  The type assertions \<^verbatim>\<open>x.(string)\<close> and \<^verbatim>\<open>x.(bool)\<close>: the asserted value, or
  a run-time panic (\<open>None\<close>) when the interface holds anything else.
\<close>

fun asString :: "val option \<Rightarrow> string option" where
  "asString (Some (VString s)) = Some s"
| "asString _ = None"

fun asBool :: "val option \<Rightarrow> bool option" where
  "asBool (Some (VBool b)) = Some b"
| "asBool _ = None"

subsection \<open>The configuration object and \<^verbatim>\<open>configureProvider\<close>\<close>

text \<open>
  The fields of \<^verbatim>\<open>huaweicloud.Config\<close> that the struct literal of
  \<^verbatim>\<open>configureProvider\<close> writes. The struct is declared in the cloud library; every
  field the literal does not name keeps its zero value and is not modelled.
\<close>

record Config =
  AccessKey :: string
  SecretKey :: string
  DomainName :: string
  IdentityEndpoint :: string
  Insecure :: bool
  Password :: string
  Region :: string
  TenantName :: string
  Username :: string
  TerraformVersion :: string
  Cloud :: string
  RegionClient :: bool

text \<open>
  How a configuration attempt can end without a configuration object: a failed type
  assertion, a rejection by the SDK's schema layer before the provider's code runs
  (with the fields at fault), or the error that \<^verbatim>\<open>LoadAndValidate\<close> returned.
\<close>

datatype field_error = RequiredFieldNotSet string | InvalidFieldValue string

datatype error =
    TypeAssertionPanic
  | SchemaRejected "field_error list"
  | LoadAndValidateError string

text \<open>
  Lines 152 to 159 of \<^verbatim>\<open>configureProvider\<close>: the choice of \<^verbatim>\<open>project_name\<close>.
  \<open>None\<close> is a panic of a type assertion. In \<^verbatim>\<open>ok && v.(string) != ""\<close> the
  assertion is evaluated only when \<open>ok\<close> holds.
\<close>

definition project_name :: "ResourceData \<Rightarrow> string option" where
  "project_name d =
     (case GetOk d ''project_name'' of
        (v, ok) \<Rightarrow>
          if ok then do {
            s \<leftarrow> asString v;
            if s \<noteq> [] then asString v else asString (Get d ''region'')
          }
          else asString (Get d ''region''))"

text \<open>
  Lines 161 to 174: the struct literal, its fields in the order of the source. \<open>None\<close>
  is a panic of one of the type assertions.
\<close>

definition build_config :: "ResourceData \<Rightarrow> string \<Rightarrow> Config option" where
  "build_config d terraformVersion = do {
     project_name \<leftarrow> project_name d;
     access_key \<leftarrow> asString (Get d ''access_key'');
     secret_key \<leftarrow> asString (Get d ''secret_key'');
     account_name \<leftarrow> asString (Get d ''account_name'');
     auth_url \<leftarrow> asString (Get d ''auth_url'');
     insecure \<leftarrow> asBool (Get d ''insecure'');
     password \<leftarrow> asString (Get d ''password'');
     region \<leftarrow> asString (Get d ''region'');
     user_name \<leftarrow> asString (Get d ''user_name'');
     Some \<lparr>AccessKey = access_key,
           SecretKey = secret_key,
           DomainName = account_name,
           IdentityEndpoint = auth_url,
           Insecure = insecure,
           Password = password,
           Region = region,
           TenantName = project_name,
           Username = user_name,
           TerraformVersion = terraformVersion,
           Cloud = ''hc.sbercloud.ru'',
           RegionClient = True\<rparr>
   }"

text \<open>
  \<^verbatim>\<open>configureProvider\<close>. The call \<^verbatim>\<open>config.LoadAndValidate()\<close> belongs to the cloud
  library and may talk to the identity endpoint, so it is a parameter that takes the
  configuration and the state of the outside world \<open>w\<close> and returns an error or
  \<^verbatim>\<open>nil\<close> together with the new state of the world. The function returns the
  configuration when the call reports no error and the error alone otherwise.

  The call is made on the addressable local \<^verbatim>\<open>config\<close>, whose address is what
  \<^verbatim>\<open>configureProvider\<close> returns. Whatever the library attaches to the object (its
  clients and sessions) lives in fields of the struct that are not modelled; the twelve
  fields written by the literal are taken to be left as they are by the call.
\<close>

definition configureProvider ::
  "ResourceData \<Rightarrow> string \<Rightarrow> (Config \<Rightarrow> 'w \<Rightarrow> string option \<times> 'w) \<Rightarrow> 'w
     \<Rightarrow> (error + Config) \<times> 'w" where
  "configureProvider d terraformVersion LoadAndValidate w =
     (case build_config d terraformVersion of
        None \<Rightarrow> (Inl TypeAssertionPanic, w)
      | Some config \<Rightarrow>
          (case LoadAndValidate config w of
             (Some err, w') \<Rightarrow> (Inl (LoadAndValidateError err), w')
           | (None, w') \<Rightarrow> (Inr config, w')))"

text \<open>
  The closure assigned to \<^verbatim>\<open>provider.ConfigureFunc\<close> (lines 118 to 126). Its first
  argument is \<^verbatim>\<open>provider.TerraformVersion\<close>, the version string the host sent.
\<close>

definition ConfigureFunc ::
  "string \<Rightarrow> ResourceData \<Rightarrow> (Config \<Rightarrow> 'w \<Rightarrow> string option \<times> 'w) \<Rightarrow> 'w
     \<Rightarrow> (error + Config) \<times> 'w" where
  "ConfigureFunc providerTerraformVersion d LoadAndValidate w =
     (let terraformVersion =
            (if providerTerraformVersion = [] then ''0.11+compatible''
             else providerTerraformVersion)
      in configureProvider d terraformVersion LoadAndValidate w)"

subsection \<open>From the provider block to the data\<close>

text \<open>
  SDK. The host hands the provider block to the SDK as a map from field names to the
  values written in the block (\<open>None\<close>: the field is not written). Before
  \<^verbatim>\<open>ConfigureFunc\<close> runs, the SDK reads every field of the schema: the value written
  in the block when there is one, the result of the field's \<^verbatim>\<open>DefaultFunc\<close>
  otherwise.
\<close>

definition readRaw :: "Schema \<Rightarrow> val option \<Rightarrow> environ \<Rightarrow> val option" where
  "readRaw s written env = (case written of Some v \<Rightarrow> Some v | None \<Rightarrow> DefaultFunc s env)"

text \<open>
  SDK and Go library. The field reader brings the raw value to the field's type: it
  decodes the value weakly to a string (a bool becomes \<^verbatim>\<open>"1"\<close> or \<^verbatim>\<open>"0"\<close>) and
  parses the string for the schema type; \<^verbatim>\<open>strconv.ParseBool\<close> accepts the twelve
  spellings below, and the reader takes the empty string as \<^verbatim>\<open>false\<close>. \<open>None\<close> is
  the reader's error.
\<close>

fun weakDecodeString :: "val \<Rightarrow> string" where
  "weakDecodeString (VString s) = s"
| "weakDecodeString (VBool b) = (if b then ''1'' else ''0'')"

definition ParseBool :: "string \<Rightarrow> bool option" where
  "ParseBool str =
     (if str \<in> set [''1'', ''t'', ''T'', ''true'', ''TRUE'', ''True''] then Some True
      else if str \<in> set [''0'', ''f'', ''F'', ''false'', ''FALSE'', ''False''] then Some False
      else None)"

fun stringToPrimitive :: "ValueType \<Rightarrow> string \<Rightarrow> val option" where
  "stringToPrimitive TypeBool str =
     (if str = [] then Some (VBool False) else map_option VBool (ParseBool str))"
| "stringToPrimitive TypeString str = Some (VString str)"

definition readPrimitive :: "Schema \<Rightarrow> val option \<Rightarrow> environ \<Rightarrow> val option" where
  "readPrimitive s written env =
     (case readRaw s written env of
        None \<Rightarrow> None
      | Some v \<Rightarrow> stringToPrimitive (Type s) (weakDecodeString v))"

text \<open>
  SDK. The data handed to \<^verbatim>\<open>ConfigureFunc\<close>: every field of the schema with the value
  read for it. A field that is neither written nor defaulted has no value.
\<close>

definition Data :: "(string \<times> Schema) list \<Rightarrow> (string \<rightharpoonup> val) \<Rightarrow> environ \<Rightarrow> ResourceData" where
  "Data sch block env =
     \<lparr>schema = sch,
      vals = (\<lambda>key. case map_of sch key of
                      None \<Rightarrow> None
                    | Some s \<Rightarrow> readPrimitive s (block key) env)\<rparr>"

text \<open>
  SDK. The schema layer validates the block before the data is built. Of that validation
  the two checks are kept that decide whether a field can be read at all: a field marked
  \<^verbatim>\<open>Required\<close> must be written or defaulted, and a value must parse for the field's
  type. The SDK's other checks (among them its treatment of \<^verbatim>\<open>RequiredWith\<close>) are not
  interpreted here; they can only reject further blocks.
\<close>

definition validateField :: "string \<Rightarrow> Schema \<Rightarrow> val option \<Rightarrow> environ \<Rightarrow> field_error list" where
  "validateField key s written env =
     (case readRaw s written env of
        None \<Rightarrow> (if Required s then [RequiredFieldNotSet key] else [])
      | Some v \<Rightarrow>
          (case stringToPrimitive (Type s) (weakDecodeString v) of
             None \<Rightarrow> [InvalidFieldValue key]
           | Some _ \<Rightarrow> []))"

definition Validate :: "(string \<times> Schema) list \<Rightarrow> (string \<rightharpoonup> val) \<Rightarrow> environ \<Rightarrow> field_error list" where
  "Validate sch block env =
     concat (map (\<lambda>(key, s). validateField key s (block key) env) sch)"

text \<open>
  SDK, the provider's configuration step as the host drives it: a block with schema
  errors is rejected and the provider's \<^verbatim>\<open>ConfigureFunc\<close> is not called; otherwise
  \<^verbatim>\<open>ConfigureFunc\<close> runs on the data read from the block.
\<close>

definition Configure ::
  "(string \<rightharpoonup> val) \<Rightarrow> environ \<Rightarrow> string \<Rightarrow> (Config \<Rightarrow> 'w \<Rightarrow> string option \<times> 'w) \<Rightarrow> 'w
     \<Rightarrow> (error + Config) \<times> 'w" where
  "Configure block env providerTerraformVersion LoadAndValidate w =
     (case Validate ProviderSchema block env of
        [] \<Rightarrow> ConfigureFunc providerTerraformVersion (Data ProviderSchema block env)
                LoadAndValidate w
      | e # es \<Rightarrow> (Inl (SchemaRejected (e # es)), w))"

text \<open>
  A stand-in for the library call, for running the definitions on concrete inputs: it
  answers \<open>r\<close> whatever the configuration is, and the state of the world is the list of
  the configurations it has been called with.
\<close>

definition answer :: "string option \<Rightarrow> Config \<Rightarrow> Config list \<Rightarrow> string option \<times> Config list" where
  "answer r config calls = (r, calls @ [config])"

section \<open>Properties\<close>

subsection \<open>Reading values\<close>

text \<open>
  \<^verbatim>\<open>GetOk\<close> reports a field exactly when \<^verbatim>\<open>Get\<close> returns a value that is not the
  zero value, so what \<^verbatim>\<open>configureProvider\<close> reads is determined by \<^verbatim>\<open>Get\<close> alone.
\<close>

lemma isZero_Zero: "isZero (Zero t)"
  by (cases t) simp_all

lemma GetOk_Get:
  "GetOk d key = (Get d key, case Get d key of None \<Rightarrow> False | Some v \<Rightarrow> \<not> isZero v)"
  by (auto simp: GetOk_def Get_def isZero_Zero split: option.splits)

lemma asString_Some: "asString x = Some s \<longleftrightarrow> x = Some (VString s)"
  by (cases x rule: asString.cases) simp_all

lemma asBool_Some: "asBool x = Some b \<longleftrightarrow> x = Some (VBool b)"
  by (cases x rule: asBool.cases) simp_all

text \<open>
  What an assembled configuration says about the data it was built from, and the
  configuration assembled from data whose nine fields have the types of the schema.
\<close>

lemma project_name_SomeD:
  assumes "project_name d = Some p" and "Get d ''region'' = Some (VString r)"
  shows "p = (case Get d ''project_name'' of Some (VString s) \<Rightarrow> if s \<noteq> [] then s else r | _ \<Rightarrow> r)"
  using assms
  by (auto simp: project_name_def GetOk_Get asString_Some bind_eq_Some_conv split: if_splits option.splits val.splits)

lemma project_name_typed:
  assumes "Get d ''project_name'' = Some (VString s)" and "Get d ''region'' = Some (VString r)"
  shows "project_name d = Some (if s \<noteq> [] then s else r)"
  using assms by (simp add: project_name_def GetOk_Get)

lemma build_config_SomeD:
  assumes "build_config d tv = Some c"
  shows "Get d ''access_key'' = Some (VString (AccessKey c))"
    and "Get d ''secret_key'' = Some (VString (SecretKey c))"
    and "Get d ''account_name'' = Some (VString (DomainName c))"
    and "Get d ''auth_url'' = Some (VString (IdentityEndpoint c))"
    and "Get d ''insecure'' = Some (VBool (Insecure c))"
    and "Get d ''password'' = Some (VString (Password c))"
    and "Get d ''region'' = Some (VString (Region c))"
    and "Get d ''user_name'' = Some (VString (Username c))"
    and "TerraformVersion c = tv"
    and "Cloud c = ''hc.sbercloud.ru''"
    and "RegionClient c"
    and "TenantName c = (case Get d ''project_name'' of Some (VString s) \<Rightarrow> if s \<noteq> [] then s else Region c | _ \<Rightarrow> Region c)"
proof -
  from assms obtain p ak sk an au ins pw rg un where
    p: "project_name d = Some p" and
    g: "asString (Get d ''access_key'') = Some ak" "asString (Get d ''secret_key'') = Some sk"
       "asString (Get d ''account_name'') = Some an" "asString (Get d ''auth_url'') = Some au"
       "asBool (Get d ''insecure'') = Some ins" "asString (Get d ''password'') = Some pw"
       "asString (Get d ''region'') = Some rg" "asString (Get d ''user_name'') = Some un" and
    c: "c = \<lparr>AccessKey = ak, SecretKey = sk, DomainName = an, IdentityEndpoint = au,
             Insecure = ins, Password = pw, Region = rg, TenantName = p, Username = un,
             TerraformVersion = tv, Cloud = ''hc.sbercloud.ru'', RegionClient = True\<rparr>"
    unfolding build_config_def bind_eq_Some_conv by blast
  from g c show "Get d ''access_key'' = Some (VString (AccessKey c))"
    "Get d ''secret_key'' = Some (VString (SecretKey c))"
    "Get d ''account_name'' = Some (VString (DomainName c))"
    "Get d ''auth_url'' = Some (VString (IdentityEndpoint c))"
     "Get d ''insecure'' = Some (VBool (Insecure c))"
     "Get d ''password'' = Some (VString (Password c))"
     "Get d ''region'' = Some (VString (Region c))"
     "Get d ''user_name'' = Some (VString (Username c))"
    by (simp_all add: asString_Some asBool_Some)
  from c show "TerraformVersion c = tv" "Cloud c = ''hc.sbercloud.ru''" "RegionClient c" by simp_all
  from g have rg: "Get d ''region'' = Some (VString rg)" by (simp add: asString_Some)
  from project_name_SomeD[OF p rg] c show "TenantName c = (case Get d ''project_name'' of Some (VString s) \<Rightarrow> if s \<noteq> [] then s else Region c | _ \<Rightarrow> Region c)"
    by (simp split: option.splits val.splits)
qed

lemma build_config_typed:
  assumes "Get d ''access_key'' = Some (VString ak)"
    and "Get d ''secret_key'' = Some (VString sk)"
    and "Get d ''account_name'' = Some (VString an)"
    and "Get d ''auth_url'' = Some (VString au)"
    and "Get d ''insecure'' = Some (VBool ins)"
    and "Get d ''password'' = Some (VString pw)"
    and "Get d ''region'' = Some (VString rg)"
    and "Get d ''user_name'' = Some (VString un)"
    and "Get d ''project_name'' = Some (VString pn)"
  shows "build_config d tv =
     Some \<lparr>AccessKey = ak, SecretKey = sk, DomainName = an, IdentityEndpoint = au,
             Insecure = ins, Password = pw, Region = rg, TenantName = (if pn \<noteq> [] then pn else rg), Username = un,
             TerraformVersion = tv, Cloud = ''hc.sbercloud.ru'', RegionClient = True\<rparr>"
  using assms by (simp add: build_config_def project_name_typed)

text \<open>
  The data read from a block has, for every field of the schema, a value of the field's
  type. For the provider's schema no type assertion of \<^verbatim>\<open>configureProvider\<close> fails.
\<close>

lemma stringToPrimitive_typed:
  "stringToPrimitive t str = Some v \<Longrightarrow> (t = TypeString \<longrightarrow> (\<exists>s. v = VString s)) \<and> (t = TypeBool \<longrightarrow> (\<exists>b. v = VBool b))"
  by (cases t) (auto split: if_splits)

lemma Get_Data:
  "Get (Data sch block env) key =
     (case map_of sch key of None \<Rightarrow> None
      | Some s \<Rightarrow> (case readPrimitive s (block key) env of None \<Rightarrow> Some (Zero (Type s)) | Some v \<Rightarrow> Some v))"
  by (simp add: Get_def Data_def split: option.splits)

lemma Get_Data_String:
  assumes "map_of sch key = Some s" and "Type s = TypeString"
  shows "\<exists>str. Get (Data sch block env) key = Some (VString str)"
  using assms by (auto simp: Get_Data readPrimitive_def split: option.splits)

lemma Get_Data_Bool:
  assumes "map_of sch key = Some s" and "Type s = TypeBool"
  shows "\<exists>b. Get (Data sch block env) key = Some (VBool b)"
  using assms by (auto simp: Get_Data readPrimitive_def split: option.splits if_splits)

lemma ProviderSchema_types:
  "map_option Type (map_of ProviderSchema ''access_key'') = Some TypeString"
  "map_option Type (map_of ProviderSchema ''secret_key'') = Some TypeString"
  "map_option Type (map_of ProviderSchema ''account_name'') = Some TypeString"
  "map_option Type (map_of ProviderSchema ''auth_url'') = Some TypeString"
  "map_option Type (map_of ProviderSchema ''insecure'') = Some TypeBool"
  "map_option Type (map_of ProviderSchema ''password'') = Some TypeString"
  "map_option Type (map_of ProviderSchema ''region'') = Some TypeString"
  "map_option Type (map_of ProviderSchema ''user_name'') = Some TypeString"
  "map_option Type (map_of ProviderSchema ''project_name'') = Some TypeString"
  by (simp_all add: ProviderSchema_def)

lemma build_config_provider:
  "\<exists>c. build_config (Data ProviderSchema block env) tv = Some c"
proof -
  let ?d = "Data ProviderSchema block env"
  have S: "\<exists>str. Get ?d key = Some (VString str)"
    if "map_option Type (map_of ProviderSchema key) = Some TypeString" for key
    using that Get_Data_String[of ProviderSchema key] by auto
  have B: "\<exists>b. Get ?d key = Some (VBool b)"
    if "map_option Type (map_of ProviderSchema key) = Some TypeBool" for key
    using that Get_Data_Bool[of ProviderSchema key] by auto
  from S[OF ProviderSchema_types(1)] S[OF ProviderSchema_types(2)] S[OF ProviderSchema_types(3)]
    S[OF ProviderSchema_types(4)] B[OF ProviderSchema_types(5)] S[OF ProviderSchema_types(6)]
    S[OF ProviderSchema_types(7)] S[OF ProviderSchema_types(8)] S[OF ProviderSchema_types(9)]
  obtain ak sk an au ins pw rg un pn where
     "Get ?d ''access_key'' = Some (VString ak)"
     "Get ?d ''secret_key'' = Some (VString sk)"
     "Get ?d ''account_name'' = Some (VString an)"
     "Get ?d ''auth_url'' = Some (VString au)"
     "Get ?d ''insecure'' = Some (VBool ins)"
     "Get ?d ''password'' = Some (VString pw)"
     "Get ?d ''region'' = Some (VString rg)"
     "Get ?d ''user_name'' = Some (VString un)"
     "Get ?d ''project_name'' = Some (VString pn)"
    by blast
  from build_config_typed[OF this] show ?thesis by blast
qed

subsection \<open>Running \<^verbatim>\<open>configureProvider\<close>\<close>

text \<open>
  A returned configuration is the assembled one and was accepted by the call; once a
  configuration is assembled, the result is the call's answer.
\<close>

lemma configureProvider_fst_InrD:
  assumes "fst (configureProvider d tv lv w) = Inr c"
  shows "build_config d tv = Some c" and "fst (lv c w) = None"
  using assms by (auto simp: configureProvider_def split: option.splits prod.splits)

lemma configureProvider_Some:
  assumes "build_config d tv = Some c"
  shows "configureProvider d tv lv w =
           (case fst (lv c w) of None \<Rightarrow> Inr c | Some err \<Rightarrow> Inl (LoadAndValidateError err),
            snd (lv c w))"
  using assms by (simp add: configureProvider_def split: prod.splits option.splits)

text \<open>The definitions to unfold when a concrete block is run.\<close>

lemmas run_defs =
  configureProvider_def build_config_def project_name_def GetOk_def Get_def Data_def
  ProviderSchema_def readPrimitive_def readRaw_def EnvDefaultFunc_def Getenv_def
  answer_def auth_url_default_def ConfigureFunc_def ParseBool_def

subsection \<open>The tenant name\<close>

text \<open>
  The resolved \<^verbatim>\<open>project_name\<close> is the empty string both when the block writes
  \<^verbatim>\<open>""\<close> and when the block leaves the field out and \<^verbatim>\<open>SBC_PROJECT_NAME\<close> is unset
  or empty.
\<close>

lemma Get_Data_project_name_empty:
  assumes "block ''project_name'' = Some (VString [])
         \<or> (block ''project_name'' = None \<and> Getenv env ''SBC_PROJECT_NAME'' = [])"
  shows "Get (Data ProviderSchema block env) ''project_name'' = Some (VString [])"
  using assms
  by (auto simp: Get_Data ProviderSchema_def readPrimitive_def readRaw_def)

text \<open>
  Claim C1. Whenever the resolved \<^verbatim>\<open>project_name\<close> is the empty string, whether the
  field was left unset or was written as \<^verbatim>\<open>""\<close>, the configuration that
  \<^verbatim>\<open>configureProvider\<close> returns has the resolved region as its \<^verbatim>\<open>TenantName\<close>.
  The instance below is the block \<^verbatim>\<open>{region: "ru-moscow-1", project_name: ""}\<close>.
\<close>

theorem empty_project_name_uses_region:
  assumes "fst (configureProvider d terraformVersion LoadAndValidate w) = Inr config"
    and "Get d ''project_name'' = Some (VString [])"
  shows "Get d ''region'' = Some (VString (TenantName config))"
proof -
  from assms(1) have b: "build_config d terraformVersion = Some config"
    by (rule configureProvider_fst_InrD)
  from build_config_SomeD(12)[OF b] assms(2) have "TenantName config = Region config"
    by simp
  with build_config_SomeD(7)[OF b] show ?thesis by simp
qed

theorem empty_project_name_uses_region_witness:
  "fst (configureProvider
     (Data ProviderSchema [''region'' \<mapsto> VString ''ru-moscow-1'', ''project_name'' \<mapsto> VString []] Map.empty)
     ''0.12.26'' (answer None) [])
   = Inr \<lparr>AccessKey = [], SecretKey = [], DomainName = [],
          IdentityEndpoint = ''https://iam.ru-moscow-1.hc.sbercloud.ru/v3'',
          Insecure = False, Password = [], Region = ''ru-moscow-1'',
          TenantName = ''ru-moscow-1'', Username = [], TerraformVersion = ''0.12.26'',
          Cloud = ''hc.sbercloud.ru'', RegionClient = True\<rparr>
   \<and> Get (Data ProviderSchema [''region'' \<mapsto> VString ''ru-moscow-1'', ''project_name'' \<mapsto> VString []] Map.empty)
        ''project_name'' = Some (VString [])
   \<and> Get (Data ProviderSchema [''region'' \<mapsto> VString ''ru-moscow-1'', ''project_name'' \<mapsto> VString []] Map.empty)
        ''region'' = Some (VString ''ru-moscow-1'')"
proof -
  let ?d = "Data ProviderSchema [''region'' \<mapsto> VString ''ru-moscow-1'', ''project_name'' \<mapsto> VString []] Map.empty"
  let ?c = "\<lparr>AccessKey = [], SecretKey = [], DomainName = [],
          IdentityEndpoint = ''https://iam.ru-moscow-1.hc.sbercloud.ru/v3'',
          Insecure = False, Password = [], Region = ''ru-moscow-1'',
          TenantName = ''ru-moscow-1'', Username = [], TerraformVersion = ''0.12.26'',
          Cloud = ''hc.sbercloud.ru'', RegionClient = True\<rparr>"
  have run: "fst (configureProvider ?d ''0.12.26'' (answer None) []) = Inr ?c"
    by (simp add: run_defs)
  have pn: "Get ?d ''project_name'' = Some (VString [])"
    by (simp add: run_defs)
  from empty_project_name_uses_region[OF run pn] run pn show ?thesis by simp
qed

text \<open>
  Claim C2. Whenever the resolved \<^verbatim>\<open>project_name\<close> is a string that is not empty,
  the configuration that \<^verbatim>\<open>configureProvider\<close> returns has exactly that string as
  its \<^verbatim>\<open>TenantName\<close>. The instance below is the block
  \<^verbatim>\<open>{region: "ru-moscow-1", project_name: "proj-a"}\<close>.
\<close>

theorem nonempty_project_name_kept:
  assumes "fst (configureProvider d terraformVersion LoadAndValidate w) = Inr config"
    and "Get d ''project_name'' = Some (VString name)"
    and "name \<noteq> []"
  shows "TenantName config = name"
proof -
  from assms(1) have b: "build_config d terraformVersion = Some config"
    by (rule configureProvider_fst_InrD)
  from build_config_SomeD(12)[OF b] assms(2,3) show ?thesis by simp
qed

theorem nonempty_project_name_kept_witness:
  "fst (configureProvider
     (Data ProviderSchema [''region'' \<mapsto> VString ''ru-moscow-1'', ''project_name'' \<mapsto> VString ''proj-a''] Map.empty)
     ''0.12.26'' (answer None) [])
   = Inr \<lparr>AccessKey = [], SecretKey = [], DomainName = [],
          IdentityEndpoint = ''https://iam.ru-moscow-1.hc.sbercloud.ru/v3'',
          Insecure = False, Password = [], Region = ''ru-moscow-1'',
          TenantName = ''proj-a'', Username = [], TerraformVersion = ''0.12.26'',
          Cloud = ''hc.sbercloud.ru'', RegionClient = True\<rparr>
   \<and> Get (Data ProviderSchema [''region'' \<mapsto> VString ''ru-moscow-1'', ''project_name'' \<mapsto> VString ''proj-a''] Map.empty)
        ''project_name'' = Some (VString ''proj-a'')
   \<and> ''proj-a'' \<noteq> []"
proof -
  let ?d = "Data ProviderSchema [''region'' \<mapsto> VString ''ru-moscow-1'', ''project_name'' \<mapsto> VString ''proj-a''] Map.empty"
  let ?c = "\<lparr>AccessKey = [], SecretKey = [], DomainName = [],
          IdentityEndpoint = ''https://iam.ru-moscow-1.hc.sbercloud.ru/v3'',
          Insecure = False, Password = [], Region = ''ru-moscow-1'',
          TenantName = ''proj-a'', Username = [], TerraformVersion = ''0.12.26'',
          Cloud = ''hc.sbercloud.ru'', RegionClient = True\<rparr>"
  have run: "fst (configureProvider ?d ''0.12.26'' (answer None) []) = Inr ?c"
    by (simp add: run_defs)
  have pn: "Get ?d ''project_name'' = Some (VString ''proj-a'')"
    by (simp add: run_defs)
  have ne: "''proj-a'' \<noteq> []" by simp
  from nonempty_project_name_kept[OF run pn ne] run pn show ?thesis by simp
qed

subsection \<open>The identity endpoint\<close>

text \<open>
  Claim C3, as stated, asks that the block \<^verbatim>\<open>{auth_url: "", region: "r1"}\<close> with no
  environment variable be configured with the fixed default endpoint. The field's
  \<^verbatim>\<open>DefaultFunc\<close> is consulted only for a field the block does not write, and
  \<^verbatim>\<open>configureProvider\<close> stores \<^verbatim>\<open>d.Get("auth_url")\<close> as it is (it has a fallback
  for an empty \<^verbatim>\<open>project_name\<close> and none for an empty \<^verbatim>\<open>auth_url\<close>): on that
  block the \<^verbatim>\<open>IdentityEndpoint\<close> is the empty string.
\<close>

theorem explicit_empty_auth_url_counterexample:
  "map_sum id IdentityEndpoint
     (fst (configureProvider
        (Data ProviderSchema [''auth_url'' \<mapsto> VString [], ''region'' \<mapsto> VString ''r1''] Map.empty)
        ''0.12.26'' (answer None) []))
   = Inr []
   \<and> map_sum id IdentityEndpoint
     (fst (configureProvider
        (Data ProviderSchema [''auth_url'' \<mapsto> VString [], ''region'' \<mapsto> VString ''r1''] Map.empty)
        ''0.12.26'' (answer None) []))
   \<noteq> Inr ''https://iam.ru-moscow-1.hc.sbercloud.ru/v3''"
  by (simp add: run_defs)

text \<open>What \<^verbatim>\<open>d.Get("auth_url")\<close> returns on the data read from a block.\<close>

lemma Get_Data_auth_url:
  "Get (Data ProviderSchema block env) ''auth_url'' =
     Some (VString (case block ''auth_url'' of
                      Some v \<Rightarrow> weakDecodeString v
                    | None \<Rightarrow> if Getenv env ''SBC_AUTH_URL'' \<noteq> [] then Getenv env ''SBC_AUTH_URL''
                              else auth_url_default))"
  by (auto simp: Get_Data ProviderSchema_def readPrimitive_def readRaw_def EnvDefaultFunc_def
      Let_def split: option.splits)

text \<open>
  Claim C3, amended. When \<^verbatim>\<open>auth_url\<close> is not written in the block and the
  environment variable \<^verbatim>\<open>SBC_AUTH_URL\<close> is unset or empty, the returned
  configuration's \<^verbatim>\<open>IdentityEndpoint\<close> is the fixed default
  \<^verbatim>\<open>https://iam.ru-moscow-1.hc.sbercloud.ru/v3\<close>; an \<^verbatim>\<open>auth_url\<close> that is written
  in the block, the empty string included, is stored as written.
\<close>

theorem auth_url_default_when_unset:
  assumes "fst (configureProvider (Data ProviderSchema block env) terraformVersion LoadAndValidate w)
             = Inr config"
  shows "(block ''auth_url'' = None \<and> Getenv env ''SBC_AUTH_URL'' = []
            \<longrightarrow> IdentityEndpoint config = ''https://iam.ru-moscow-1.hc.sbercloud.ru/v3'')
       \<and> (\<forall>url. block ''auth_url'' = Some (VString url) \<longrightarrow> IdentityEndpoint config = url)"
proof -
  from assms have b: "build_config (Data ProviderSchema block env) terraformVersion = Some config"
    by (rule configureProvider_fst_InrD)
  from build_config_SomeD(4)[OF b] show ?thesis
    by (auto simp: Get_Data_auth_url auth_url_default_def)
qed

theorem auth_url_default_when_unset_witness:
  "fst (configureProvider (Data ProviderSchema [''region'' \<mapsto> VString ''r1''] Map.empty)
          ''0.12.26'' (answer None) [])
   = Inr \<lparr>AccessKey = [], SecretKey = [], DomainName = [],
          IdentityEndpoint = ''https://iam.ru-moscow-1.hc.sbercloud.ru/v3'',
          Insecure = False, Password = [], Region = ''r1'',
          TenantName = ''r1'', Username = [], TerraformVersion = ''0.12.26'',
          Cloud = ''hc.sbercloud.ru'', RegionClient = True\<rparr>
   \<and> [''region'' \<mapsto> VString ''r1''] ''auth_url'' = None
   \<and> Getenv Map.empty ''SBC_AUTH_URL'' = []
   \<and> fst (configureProvider
        (Data ProviderSchema [''auth_url'' \<mapsto> VString ''https://iam.example.test/v3'', ''region'' \<mapsto> VString ''r1''] Map.empty)
          ''0.12.26'' (answer None) [])
   = Inr \<lparr>AccessKey = [], SecretKey = [], DomainName = [],
          IdentityEndpoint = ''https://iam.example.test/v3'',
          Insecure = False, Password = [], Region = ''r1'',
          TenantName = ''r1'', Username = [], TerraformVersion = ''0.12.26'',
          Cloud = ''hc.sbercloud.ru'', RegionClient = True\<rparr>
   \<and> [''auth_url'' \<mapsto> VString ''https://iam.example.test/v3'', ''region'' \<mapsto> VString ''r1''] ''auth_url''
        = Some (VString ''https://iam.example.test/v3'')"
proof -
  let ?b1 = "[''region'' \<mapsto> VString ''r1'']"
  let ?b2 = "[''auth_url'' \<mapsto> VString ''https://iam.example.test/v3'', ''region'' \<mapsto> VString ''r1'']"
  let ?c1 = "\<lparr>AccessKey = [], SecretKey = [], DomainName = [],
          IdentityEndpoint = ''https://iam.ru-moscow-1.hc.sbercloud.ru/v3'',
          Insecure = False, Password = [], Region = ''r1'',
          TenantName = ''r1'', Username = [], TerraformVersion = ''0.12.26'',
          Cloud = ''hc.sbercloud.ru'', RegionClient = True\<rparr>"
  let ?c2 = "\<lparr>AccessKey = [], SecretKey = [], DomainName = [],
          IdentityEndpoint = ''https://iam.example.test/v3'',
          Insecure = False, Password = [], Region = ''r1'',
          TenantName = ''r1'', Username = [], TerraformVersion = ''0.12.26'',
          Cloud = ''hc.sbercloud.ru'', RegionClient = True\<rparr>"
  have run1: "fst (configureProvider (Data ProviderSchema ?b1 Map.empty) ''0.12.26'' (answer None) []) = Inr ?c1"
    by (simp add: run_defs)
  have run2: "fst (configureProvider (Data ProviderSchema ?b2 Map.empty) ''0.12.26'' (answer None) []) = Inr ?c2"
    by (simp add: run_defs)
  have h1: "?b1 ''auth_url'' = None" "Getenv Map.empty ''SBC_AUTH_URL'' = []"
    by (simp_all add: Getenv_def)
  have h2: "?b2 ''auth_url'' = Some (VString ''https://iam.example.test/v3'')" by simp
  from auth_url_default_when_unset[OF run1] auth_url_default_when_unset[OF run2] run1 run2 h1 h2
  show ?thesis by simp
qed

subsection \<open>A missing region\<close>

text \<open>
  Claim C4, as stated, asks that with every field absent and no environment variable set
  the missing region be reported by the external validation step and not by a
  schema-level requirement check that runs before \<^verbatim>\<open>configureProvider\<close>. The schema
  declares \<^verbatim>\<open>region\<close> with \<^verbatim>\<open>Required: true\<close> and a \<^verbatim>\<open>DefaultFunc\<close> whose default
  is \<^verbatim>\<open>nil\<close>, so the schema layer rejects the block: \<^verbatim>\<open>ConfigureFunc\<close> does not
  run, and a validation call that would have reported the missing region is never made
  (the list of calls stays empty).
\<close>

theorem missing_region_counterexample:
  "Configure Map.empty Map.empty [] (answer (Some ''region should be provided'')) []
     = (Inl (SchemaRejected [RequiredFieldNotSet ''region'']), [])"
  by (simp add: Configure_def Validate_def validateField_def ProviderSchema_def readRaw_def
      EnvDefaultFunc_def Getenv_def ParseBool_def)

text \<open>The schema check reports the region whenever neither the block nor the environment gives one.\<close>

lemma Validate_region:
  assumes "block ''region'' = None" and "Getenv env ''SBC_REGION_NAME'' = []"
  shows "RequiredFieldNotSet ''region'' \<in> set (Validate ProviderSchema block env)"
  using assms
  by (simp add: Validate_def ProviderSchema_def validateField_def readRaw_def EnvDefaultFunc_def)

text \<open>
  Claim C4, amended. \<^verbatim>\<open>region\<close> has no hardcoded default: the field is declared
  \<^verbatim>\<open>Required\<close> and its \<^verbatim>\<open>DefaultFunc\<close> yields \<^verbatim>\<open>nil\<close> when \<^verbatim>\<open>SBC_REGION_NAME\<close>
  is unset or empty. For every block that does not write \<^verbatim>\<open>region\<close>, in such an
  environment (in particular for the empty block with no environment variable set), the
  configuration step fails with a missing-region error raised by the schema-level
  requirement check before \<^verbatim>\<open>configureProvider\<close> runs; the external validation call
  is not made and the world is left as it was.
\<close>

theorem missing_region_rejected_by_schema:
  assumes "block ''region'' = None" and "Getenv env ''SBC_REGION_NAME'' = []"
  shows "map_option (\<lambda>s. (Required s, DefaultFunc s env)) (map_of ProviderSchema ''region'')
           = Some (True, None)
       \<and> (\<exists>errs. Configure block env providerTerraformVersion LoadAndValidate w
                    = (Inl (SchemaRejected errs), w)
                 \<and> RequiredFieldNotSet ''region'' \<in> set errs)"
proof -
  have "map_option (\<lambda>s. (Required s, DefaultFunc s env)) (map_of ProviderSchema ''region'')
           = Some (True, None)"
    using assms(2) by (simp add: ProviderSchema_def EnvDefaultFunc_def)
  moreover have m: "RequiredFieldNotSet ''region'' \<in> set (Validate ProviderSchema block env)"
    using assms by (rule Validate_region)
  then obtain e es where "Validate ProviderSchema block env = e # es"
    by (cases "Validate ProviderSchema block env") auto
  with m have "Configure block env providerTerraformVersion LoadAndValidate w
          = (Inl (SchemaRejected (e # es)), w) \<and> RequiredFieldNotSet ''region'' \<in> set (e # es)"
    by (simp add: Configure_def)
  ultimately show ?thesis by blast
qed

theorem missing_region_rejected_by_schema_witness:
  "Getenv Map.empty ''SBC_REGION_NAME'' = []
   \<and> map_option (\<lambda>s. (Required s, DefaultFunc s Map.empty)) (map_of ProviderSchema ''region'')
           = Some (True, None)
   \<and> (\<exists>errs. Configure Map.empty Map.empty ''0.12.26'' (answer None) []
                    = (Inl (SchemaRejected errs), [])
                 \<and> RequiredFieldNotSet ''region'' \<in> set errs)"
proof -
  have h: "Getenv Map.empty ''SBC_REGION_NAME'' = []"
    by (simp add: Getenv_def)
  from missing_region_rejected_by_schema
         [of Map.empty Map.empty "''0.12.26''" "answer None" "[]"] h
  show ?thesis by simp
qed

subsection \<open>Outcomes of \<^verbatim>\<open>configureProvider\<close>\<close>

text \<open>
  Claim C5. For every block and environment, \<^verbatim>\<open>configureProvider\<close> on the data read
  from them assembles a configuration, calls \<^verbatim>\<open>LoadAndValidate\<close> on it once, and then
  either returns that configuration, which the call accepted, or returns no
  configuration and the call's error. The world after \<^verbatim>\<open>configureProvider\<close> is the
  world after that one call: nothing is retried, and no configuration is returned that
  the call did not accept.
\<close>

theorem configureProvider_all_or_nothing:
  "\<exists>config. build_config (Data ProviderSchema block env) terraformVersion = Some config \<and>
     ((\<exists>w'. LoadAndValidate config w = (None, w') \<and>
            configureProvider (Data ProviderSchema block env) terraformVersion LoadAndValidate w
              = (Inr config, w')) \<or>
      (\<exists>err w'. LoadAndValidate config w = (Some err, w') \<and>
            configureProvider (Data ProviderSchema block env) terraformVersion LoadAndValidate w
              = (Inl (LoadAndValidateError err), w')))"
proof -
  obtain config where
    b: "build_config (Data ProviderSchema block env) terraformVersion = Some config"
    using build_config_provider by blast
  obtain r w' where lv: "LoadAndValidate config w = (r, w')"
    by (cases "LoadAndValidate config w")
  show ?thesis
  proof (cases r)
    case None
    with b lv show ?thesis by (auto simp: configureProvider_def)
  next
    case (Some err)
    with b lv show ?thesis by (auto simp: configureProvider_def)
  qed
qed

text \<open>
  Claim C6. A configuration returned by \<^verbatim>\<open>configureProvider\<close> is the one that was
  assembled and handed to the validation call, which accepted it, and in it
  \<^verbatim>\<open>DomainName\<close> is the resolved \<^verbatim>\<open>account_name\<close>, \<^verbatim>\<open>TenantName\<close> is the effective
  project name (the resolved \<^verbatim>\<open>project_name\<close> when that is not empty, the resolved
  region otherwise), \<^verbatim>\<open>Cloud\<close> is \<^verbatim>\<open>hc.sbercloud.ru\<close> and \<^verbatim>\<open>RegionClient\<close> is true.
\<close>

theorem derived_fields_populated:
  assumes "fst (configureProvider d terraformVersion LoadAndValidate w) = Inr config"
  shows "build_config d terraformVersion = Some config
       \<and> fst (LoadAndValidate config w) = None
       \<and> Get d ''account_name'' = Some (VString (DomainName config))
       \<and> Get d ''region'' = Some (VString (Region config))
       \<and> TenantName config =
           (case Get d ''project_name'' of
              Some (VString name) \<Rightarrow> if name \<noteq> [] then name else Region config
            | _ \<Rightarrow> Region config)
       \<and> Cloud config = ''hc.sbercloud.ru''
       \<and> RegionClient config"
proof -
  from assms have b: "build_config d terraformVersion = Some config"
    and v: "fst (LoadAndValidate config w) = None"
    by (rule configureProvider_fst_InrD)+
  from b v build_config_SomeD(3,7,10,11,12)[OF b] show ?thesis by simp
qed

theorem derived_fields_populated_witness:
  "fst (configureProvider
     (Data ProviderSchema
        [''region'' \<mapsto> VString ''ru-moscow-1'', ''account_name'' \<mapsto> VString ''acct'',
         ''user_name'' \<mapsto> VString ''u'', ''password'' \<mapsto> VString ''p''] Map.empty)
     ''0.12.26'' (answer None) [])
   = Inr \<lparr>AccessKey = [], SecretKey = [], DomainName = ''acct'',
          IdentityEndpoint = ''https://iam.ru-moscow-1.hc.sbercloud.ru/v3'',
          Insecure = False, Password = ''p'', Region = ''ru-moscow-1'',
          TenantName = ''ru-moscow-1'', Username = ''u'', TerraformVersion = ''0.12.26'',
          Cloud = ''hc.sbercloud.ru'', RegionClient = True\<rparr>
   \<and> Get (Data ProviderSchema
        [''region'' \<mapsto> VString ''ru-moscow-1'', ''account_name'' \<mapsto> VString ''acct'',
         ''user_name'' \<mapsto> VString ''u'', ''password'' \<mapsto> VString ''p''] Map.empty) ''account_name''
       = Some (VString ''acct'')"
proof -
  let ?d = "Data ProviderSchema
        [''region'' \<mapsto> VString ''ru-moscow-1'', ''account_name'' \<mapsto> VString ''acct'',
         ''user_name'' \<mapsto> VString ''u'', ''password'' \<mapsto> VString ''p''] Map.empty"
  let ?c = "\<lparr>AccessKey = [], SecretKey = [], DomainName = ''acct'',
          IdentityEndpoint = ''https://iam.ru-moscow-1.hc.sbercloud.ru/v3'',
          Insecure = False, Password = ''p'', Region = ''ru-moscow-1'',
          TenantName = ''ru-moscow-1'', Username = ''u'', TerraformVersion = ''0.12.26'',
          Cloud = ''hc.sbercloud.ru'', RegionClient = True\<rparr>"
  have run: "fst (configureProvider ?d ''0.12.26'' (answer None) []) = Inr ?c"
    by (simp add: run_defs)
  from derived_fields_populated[OF run] run show ?thesis by simp
qed

subsection \<open>The Terraform version\<close>

text \<open>
  Claim C7. When the version string received from the host is empty, the configuration
  carries the placeholder \<^verbatim>\<open>0.11+compatible\<close> in \<^verbatim>\<open>TerraformVersion\<close>; a version
  string that is not empty is stored unchanged.
\<close>

theorem version_placeholder:
  assumes "fst (ConfigureFunc providerTerraformVersion d LoadAndValidate w) = Inr config"
  shows "TerraformVersion config =
           (if providerTerraformVersion = [] then ''0.11+compatible''
            else providerTerraformVersion)"
proof -
  from assms have "build_config d (if providerTerraformVersion = [] then ''0.11+compatible''
            else providerTerraformVersion) = Some config"
    unfolding ConfigureFunc_def Let_def by (rule configureProvider_fst_InrD)
  from build_config_SomeD(9)[OF this] show ?thesis .
qed

theorem version_placeholder_witness:
  "fst (ConfigureFunc [] (Data ProviderSchema [''region'' \<mapsto> VString ''r1''] Map.empty)
          (answer None) [])
   = Inr \<lparr>AccessKey = [], SecretKey = [], DomainName = [],
          IdentityEndpoint = ''https://iam.ru-moscow-1.hc.sbercloud.ru/v3'',
          Insecure = False, Password = [], Region = ''r1'',
          TenantName = ''r1'', Username = [], TerraformVersion = ''0.11+compatible'',
          Cloud = ''hc.sbercloud.ru'', RegionClient = True\<rparr>
   \<and> fst (ConfigureFunc ''0.12.26'' (Data ProviderSchema [''region'' \<mapsto> VString ''r1''] Map.empty)
          (answer None) [])
   = Inr \<lparr>AccessKey = [], SecretKey = [], DomainName = [],
          IdentityEndpoint = ''https://iam.ru-moscow-1.hc.sbercloud.ru/v3'',
          Insecure = False, Password = [], Region = ''r1'',
          TenantName = ''r1'', Username = [], TerraformVersion = ''0.12.26'',
          Cloud = ''hc.sbercloud.ru'', RegionClient = True\<rparr>"
proof -
  let ?d = "Data ProviderSchema [''region'' \<mapsto> VString ''r1''] Map.empty"
  let ?c1 = "\<lparr>AccessKey = [], SecretKey = [], DomainName = [],
          IdentityEndpoint = ''https://iam.ru-moscow-1.hc.sbercloud.ru/v3'',
          Insecure = False, Password = [], Region = ''r1'',
          TenantName = ''r1'', Username = [], TerraformVersion = ''0.11+compatible'',
          Cloud = ''hc.sbercloud.ru'', RegionClient = True\<rparr>"
  let ?c2 = "\<lparr>AccessKey = [], SecretKey = [], DomainName = [],
          IdentityEndpoint = ''https://iam.ru-moscow-1.hc.sbercloud.ru/v3'',
          Insecure = False, Password = [], Region = ''r1'',
          TenantName = ''r1'', Username = [], TerraformVersion = ''0.12.26'',
          Cloud = ''hc.sbercloud.ru'', RegionClient = True\<rparr>"
  have run1: "fst (ConfigureFunc [] ?d (answer None) []) = Inr ?c1"
    by (simp add: run_defs Let_def)
  have run2: "fst (ConfigureFunc ''0.12.26'' ?d (answer None) []) = Inr ?c2"
    by (simp add: run_defs Let_def)
  from version_placeholder[OF run1] version_placeholder[OF run2] run1 run2
  show ?thesis by simp
qed

subsection \<open>Mutual presence of credentials\<close>

text \<open>
  Claim C8. \<^verbatim>\<open>configureProvider\<close> does not check that \<^verbatim>\<open>access_key\<close> comes with
  \<^verbatim>\<open>secret_key\<close>, nor that \<^verbatim>\<open>user_name\<close>, \<^verbatim>\<open>password\<close> and \<^verbatim>\<open>account_name\<close> come
  together: for every block and environment it assembles the configuration and makes
  the validation call on it, and its result is decided by that call alone. The
  invariants are present only as the \<^verbatim>\<open>RequiredWith\<close> entries of the schema.
\<close>

theorem no_mutual_presence_check:
  "(\<exists>config. build_config (Data ProviderSchema block env) terraformVersion = Some config
        \<and> configureProvider (Data ProviderSchema block env) terraformVersion LoadAndValidate w
            = (case fst (LoadAndValidate config w) of
                 None \<Rightarrow> Inr config
               | Some err \<Rightarrow> Inl (LoadAndValidateError err),
               snd (LoadAndValidate config w))
        \<and> snd (configureProvider (Data ProviderSchema block env) terraformVersion (answer r) calls)
            = calls @ [config])
   \<and> map_option RequiredWith (map_of ProviderSchema ''access_key'') = Some [''secret_key'']
   \<and> map_option RequiredWith (map_of ProviderSchema ''secret_key'') = Some [''access_key'']
   \<and> map_option RequiredWith (map_of ProviderSchema ''user_name'')
        = Some [''password'', ''account_name'']
   \<and> map_option RequiredWith (map_of ProviderSchema ''password'')
        = Some [''user_name'', ''account_name'']
   \<and> map_option RequiredWith (map_of ProviderSchema ''account_name'')
        = Some [''password'', ''user_name'']"
proof -
  obtain config where
    b: "build_config (Data ProviderSchema block env) terraformVersion = Some config"
    using build_config_provider by blast
  have "snd (configureProvider (Data ProviderSchema block env) terraformVersion (answer r) calls)
            = calls @ [config]"
    by (simp add: configureProvider_Some[OF b] answer_def)
  with b configureProvider_Some[OF b, of LoadAndValidate w]
  have "\<exists>config. build_config (Data ProviderSchema block env) terraformVersion = Some config
        \<and> configureProvider (Data ProviderSchema block env) terraformVersion LoadAndValidate w
            = (case fst (LoadAndValidate config w) of
                 None \<Rightarrow> Inr config
               | Some err \<Rightarrow> Inl (LoadAndValidateError err),
               snd (LoadAndValidate config w))
        \<and> snd (configureProvider (Data ProviderSchema block env) terraformVersion (answer r) calls)
            = calls @ [config]"
    by blast
  moreover have "map_option RequiredWith (map_of ProviderSchema ''access_key'') = Some [''secret_key'']"
    "map_option RequiredWith (map_of ProviderSchema ''secret_key'') = Some [''access_key'']"
    "map_option RequiredWith (map_of ProviderSchema ''user_name'')
        = Some [''password'', ''account_name'']"
    "map_option RequiredWith (map_of ProviderSchema ''password'')
        = Some [''user_name'', ''account_name'']"
    "map_option RequiredWith (map_of ProviderSchema ''account_name'')
        = Some [''password'', ''user_name'']"
    by (simp_all add: ProviderSchema_def)
  ultimately show ?thesis by blast
qed

text \<open>
  An instance: a block with \<^verbatim>\<open>access_key\<close> and no \<^verbatim>\<open>secret_key\<close>, \<^verbatim>\<open>user_name\<close>
  and no \<^verbatim>\<open>password\<close>. The configuration is assembled and reaches the validation call.
\<close>

lemma access_key_without_secret_key_reaches_validation:
  "configureProvider
     (Data ProviderSchema [''region'' \<mapsto> VString ''r1'', ''access_key'' \<mapsto> VString ''ak'',
                           ''user_name'' \<mapsto> VString ''u''] Map.empty)
     ''0.12.26'' (answer None) []
   = (Inr \<lparr>AccessKey = ''ak'', SecretKey = [], DomainName = [],
          IdentityEndpoint = ''https://iam.ru-moscow-1.hc.sbercloud.ru/v3'',
          Insecure = False, Password = [], Region = ''r1'',
          TenantName = ''r1'', Username = ''u'', TerraformVersion = ''0.12.26'',
          Cloud = ''hc.sbercloud.ru'', RegionClient = True\<rparr>,
      [\<lparr>AccessKey = ''ak'', SecretKey = [], DomainName = [],
          IdentityEndpoint = ''https://iam.ru-moscow-1.hc.sbercloud.ru/v3'',
          Insecure = False, Password = [], Region = ''r1'',
          TenantName = ''r1'', Username = ''u'', TerraformVersion = ''0.12.26'',
          Cloud = ''hc.sbercloud.ru'', RegionClient = True\<rparr>])"
  by (simp add: run_defs)

subsection \<open>Determinism\<close>

text \<open>
  Claim C9. \<^verbatim>\<open>configureProvider\<close> is deterministic. Two data objects that give the
  same value for each of the nine fields, with the same version string, assemble equal
  configurations; when the validation call has the same outcome on that configuration
  the two results are equal. On the data read from a block, the only failure is the
  error that the validation call returned.
\<close>

theorem configureProvider_deterministic:
  assumes "\<forall>key \<in> set [''project_name'', ''access_key'', ''secret_key'', ''account_name'',
                         ''auth_url'', ''insecure'', ''password'', ''region'', ''user_name''].
             Get d1 key = Get d2 key"
  shows "build_config d1 terraformVersion = build_config d2 terraformVersion
       \<and> ((\<forall>config. build_config d1 terraformVersion = Some config
              \<longrightarrow> fst (validate1 config w1) = fst (validate2 config w2))
            \<longrightarrow> fst (configureProvider d1 terraformVersion validate1 w1)
                = fst (configureProvider d2 terraformVersion validate2 w2))
       \<and> (\<forall>e. fst (configureProvider (Data ProviderSchema block env) terraformVersion
                     LoadAndValidate w) = Inl e
              \<longrightarrow> (\<exists>config err.
                     build_config (Data ProviderSchema block env) terraformVersion = Some config
                   \<and> fst (LoadAndValidate config w) = Some err
                   \<and> e = LoadAndValidateError err))"
proof -
  from assms have g:
    "Get d1 ''project_name'' = Get d2 ''project_name''"
    "Get d1 ''access_key'' = Get d2 ''access_key''"
    "Get d1 ''secret_key'' = Get d2 ''secret_key''"
    "Get d1 ''account_name'' = Get d2 ''account_name''"
    "Get d1 ''auth_url'' = Get d2 ''auth_url''"
    "Get d1 ''insecure'' = Get d2 ''insecure''"
    "Get d1 ''password'' = Get d2 ''password''"
    "Get d1 ''region'' = Get d2 ''region''"
    "Get d1 ''user_name'' = Get d2 ''user_name''"
    by simp_all
  have eq: "build_config d1 terraformVersion = build_config d2 terraformVersion"
    unfolding build_config_def project_name_def GetOk_Get g ..
  have same: "fst (configureProvider d1 terraformVersion validate1 w1)
                = fst (configureProvider d2 terraformVersion validate2 w2)"
    if "\<forall>config. build_config d1 terraformVersion = Some config
              \<longrightarrow> fst (validate1 config w1) = fst (validate2 config w2)"
  proof (cases "build_config d1 terraformVersion")
    case None
    with eq show ?thesis by (simp add: configureProvider_def)
  next
    case (Some config)
    with eq have "build_config d2 terraformVersion = Some config" by simp
    with Some that show ?thesis by (simp add: configureProvider_Some)
  qed
  have only: "\<exists>config err.
                     build_config (Data ProviderSchema block env) terraformVersion = Some config
                   \<and> fst (LoadAndValidate config w) = Some err
                   \<and> e = LoadAndValidateError err"
    if "fst (configureProvider (Data ProviderSchema block env) terraformVersion
                     LoadAndValidate w) = Inl e" for e
  proof -
    obtain config where
      b: "build_config (Data ProviderSchema block env) terraformVersion = Some config"
      using build_config_provider by blast
    with that show ?thesis
      by (auto simp: configureProvider_Some split: option.splits)
  qed
  from eq same only show ?thesis by blast
qed

theorem configureProvider_deterministic_witness:
  "list_all
     (\<lambda>key.
        Get \<lparr>schema = ProviderSchema, vals = [''region'' \<mapsto> VString ''r1'']\<rparr> key
      = Get \<lparr>schema = ProviderSchema,
             vals = [''region'' \<mapsto> VString ''r1'', ''project_name'' \<mapsto> VString [],
                     ''insecure'' \<mapsto> VBool False]\<rparr> key)
     [''project_name'', ''access_key'', ''secret_key'', ''account_name'',
      ''auth_url'', ''insecure'', ''password'', ''region'', ''user_name'']
   \<and> build_config \<lparr>schema = ProviderSchema, vals = [''region'' \<mapsto> VString ''r1'']\<rparr> ''0.12.26''
     = build_config \<lparr>schema = ProviderSchema,
            vals = [''region'' \<mapsto> VString ''r1'', ''project_name'' \<mapsto> VString [],
                    ''insecure'' \<mapsto> VBool False]\<rparr> ''0.12.26''
   \<and> fst (configureProvider \<lparr>schema = ProviderSchema, vals = [''region'' \<mapsto> VString ''r1'']\<rparr>
            ''0.12.26'' (answer (Some ''unreachable endpoint'')) [])
     = fst (configureProvider \<lparr>schema = ProviderSchema,
            vals = [''region'' \<mapsto> VString ''r1'', ''project_name'' \<mapsto> VString [],
                    ''insecure'' \<mapsto> VBool False]\<rparr>
            ''0.12.26'' (answer (Some ''unreachable endpoint'')) [])"
proof -
  let ?d1 = "\<lparr>schema = ProviderSchema, vals = [''region'' \<mapsto> VString ''r1'']\<rparr>"
  let ?d2 = "\<lparr>schema = ProviderSchema,
            vals = [''region'' \<mapsto> VString ''r1'', ''project_name'' \<mapsto> VString [],
                    ''insecure'' \<mapsto> VBool False]\<rparr>"
  have h: "\<forall>key \<in> set [''project_name'', ''access_key'', ''secret_key'', ''account_name'',
                    ''auth_url'', ''insecure'', ''password'', ''region'', ''user_name''].
             Get ?d1 key = Get ?d2 key"
    by (simp add: Get_def ProviderSchema_def)
  from configureProvider_deterministic
         [OF h, where terraformVersion = "''0.12.26''"
            and ?validate1.0 = "answer (Some ''unreachable endpoint'')" and ?w1.0 = "[]"
            and ?validate2.0 = "answer (Some ''unreachable endpoint'')" and ?w2.0 = "[]"
            and block = Map.empty and env = Map.empty
            and LoadAndValidate = "answer None" and w = "[]"] h
  show ?thesis by (simp add: answer_def)
qed

subsection \<open>Fields passed through\<close>

text \<open>
  Claim C10. In a configuration returned by \<^verbatim>\<open>configureProvider\<close>, \<^verbatim>\<open>AccessKey\<close>,
  \<^verbatim>\<open>SecretKey\<close>, \<^verbatim>\<open>Password\<close>, \<^verbatim>\<open>Username\<close>, \<^verbatim>\<open>Region\<close>, \<^verbatim>\<open>Insecure\<close> and
  \<^verbatim>\<open>IdentityEndpoint\<close> are exactly the resolved values of the fields of the same
  purpose and \<^verbatim>\<open>DomainName\<close> is exactly the resolved \<^verbatim>\<open>account_name\<close>, with no
  trimming or rewriting. \<^verbatim>\<open>TenantName\<close> alone is computed from two inputs, the resolved
  \<^verbatim>\<open>project_name\<close> and the resolved region.
\<close>

theorem fields_passed_through:
  assumes "fst (configureProvider d terraformVersion LoadAndValidate w) = Inr config"
  shows "Get d ''access_key'' = Some (VString (AccessKey config))
       \<and> Get d ''secret_key'' = Some (VString (SecretKey config))
       \<and> Get d ''password'' = Some (VString (Password config))
       \<and> Get d ''user_name'' = Some (VString (Username config))
       \<and> Get d ''region'' = Some (VString (Region config))
       \<and> Get d ''insecure'' = Some (VBool (Insecure config))
       \<and> Get d ''auth_url'' = Some (VString (IdentityEndpoint config))
       \<and> Get d ''account_name'' = Some (VString (DomainName config))
       \<and> (\<forall>name. Get d ''project_name'' = Some (VString name)
             \<longrightarrow> TenantName config = (if name \<noteq> [] then name else Region config))"
proof -
  from assms have b: "build_config d terraformVersion = Some config"
    by (rule configureProvider_fst_InrD)
  from build_config_SomeD(1-8,12)[OF b] show ?thesis by simp
qed

theorem fields_passed_through_witness:
  "fst (configureProvider
     (Data ProviderSchema
        [''access_key'' \<mapsto> VString '' ak '', ''secret_key'' \<mapsto> VString ''SK/+'',
         ''auth_url'' \<mapsto> VString ''HTTPS://IAM.Example.Test/v3/'',
         ''region'' \<mapsto> VString ''RU-Moscow-1 '', ''user_name'' \<mapsto> VString ''User'',
         ''password'' \<mapsto> VString '' pw'', ''account_name'' \<mapsto> VString ''Acct'',
         ''insecure'' \<mapsto> VBool True] Map.empty)
     ''0.12.26'' (answer None) [])
   = Inr \<lparr>AccessKey = '' ak '', SecretKey = ''SK/+'', DomainName = ''Acct'',
          IdentityEndpoint = ''HTTPS://IAM.Example.Test/v3/'',
          Insecure = True, Password = '' pw'', Region = ''RU-Moscow-1 '',
          TenantName = ''RU-Moscow-1 '', Username = ''User'', TerraformVersion = ''0.12.26'',
          Cloud = ''hc.sbercloud.ru'', RegionClient = True\<rparr>
   \<and> Get (Data ProviderSchema
        [''access_key'' \<mapsto> VString '' ak '', ''secret_key'' \<mapsto> VString ''SK/+'',
         ''auth_url'' \<mapsto> VString ''HTTPS://IAM.Example.Test/v3/'',
         ''region'' \<mapsto> VString ''RU-Moscow-1 '', ''user_name'' \<mapsto> VString ''User'',
         ''password'' \<mapsto> VString '' pw'', ''account_name'' \<mapsto> VString ''Acct'',
         ''insecure'' \<mapsto> VBool True] Map.empty) ''project_name'' = Some (VString [])
   \<and> Get (Data ProviderSchema
        [''access_key'' \<mapsto> VString '' ak '', ''secret_key'' \<mapsto> VString ''SK/+'',
         ''auth_url'' \<mapsto> VString ''HTTPS://IAM.Example.Test/v3/'',
         ''region'' \<mapsto> VString ''RU-Moscow-1 '', ''user_name'' \<mapsto> VString ''User'',
         ''password'' \<mapsto> VString '' pw'', ''account_name'' \<mapsto> VString ''Acct'',
         ''insecure'' \<mapsto> VBool True] Map.empty) ''region'' = Some (VString ''RU-Moscow-1 '')"
proof -
  let ?d = "Data ProviderSchema
        [''access_key'' \<mapsto> VString '' ak '', ''secret_key'' \<mapsto> VString ''SK/+'',
         ''auth_url'' \<mapsto> VString ''HTTPS://IAM.Example.Test/v3/'',
         ''region'' \<mapsto> VString ''RU-Moscow-1 '', ''user_name'' \<mapsto> VString ''User'',
         ''password'' \<mapsto> VString '' pw'', ''account_name'' \<mapsto> VString ''Acct'',
         ''insecure'' \<mapsto> VBool True] Map.empty"
  let ?c = "\<lparr>AccessKey = '' ak '', SecretKey = ''SK/+'', DomainName = ''Acct'',
          IdentityEndpoint = ''HTTPS://IAM.Example.Test/v3/'',
          Insecure = True, Password = '' pw'', Region = ''RU-Moscow-1 '',
          TenantName = ''RU-Moscow-1 '', Username = ''User'', TerraformVersion = ''0.12.26'',
          Cloud = ''hc.sbercloud.ru'', RegionClient = True\<rparr>"
  have run: "fst (configureProvider ?d ''0.12.26'' (answer None) []) = Inr ?c"
    by (simp add: run_defs)
  have pn: "Get ?d ''project_name'' = Some (VString [])"
    by (simp add: run_defs)
  from fields_passed_through[OF run] run pn show ?thesis by simp
qed

end
